theory Spec2Isabelle
  imports Main "HOL-Library.Multiset"
begin

section \<open>Rows and page state of \<open>src/app/projects/page.tsx\<close>\<close>

text \<open>
  The three row types of the page.  TypeScript lets the three types share the field names
  \<open>id\<close> and \<open>is_active\<close>; the fields carry a prefix here (\<open>pj_\<close> for \<open>ProjectRow\<close>,
  \<open>pf_\<close> for \<open>ProfileRow\<close>, \<open>pm_\<close> for \<open>MemberRow\<close>).  A field of type \<open>T | null\<close> is a
  \<open>T option\<close>, so \<open>is_active\<close> keeps its three values \<open>None\<close>, \<open>Some True\<close>, \<open>Some False\<close>.
\<close>

datatype Role = admin | manager | contractor

record ProjectRow =
  pj_id :: string
  pj_org_id :: string
  pj_name :: string
  pj_parent_id :: "string option"
  pj_is_active :: "bool option"

record ProfileRow =
  pf_id :: string
  pf_full_name :: "string option"
  pf_role :: Role
  pf_is_active :: "bool option"
  pf_manager_id :: "string option"

record MemberRow =
  pm_id :: string
  pm_project_id :: string
  pm_profile_id :: string
  pm_is_active :: "bool option"

text \<open>
  The \<open>useState\<close> cells of \<open>ProjectsPage\<close>.  \<open>membersByProject\<close> is a
  \<open>Record<string, MemberRow[]>\<close>; the map holds the object's own properties, and a
  project id that was never loaded has no entry.
\<close>

record page =
  projects :: "ProjectRow list"
  orgProfiles :: "ProfileRow list"
  membersByProject :: "string \<rightharpoonup> MemberRow list"
  msg :: string
  busy :: bool
  newName :: string

text \<open>
  What \<open>useProfile()\<close> hands to the page: the viewer's profile (absent while nobody is
  logged in) with its organisation and role, and the viewer's user id.
\<close>

record viewer =
  vw_org_id :: "string option"
  vw_role :: Role

definition isAdminOrManager :: "viewer option \<Rightarrow> bool" where
  "isAdminOrManager profile =
     (case profile of None \<Rightarrow> False
      | Some p \<Rightarrow> vw_role p = admin \<or> vw_role p = manager)"

section \<open>The store interface as the page uses it\<close>

text \<open>
  Every store call of the page is one of the seven query-builder chains below; an
  \<open>await\<close> suspends the calling function on one of them.  The booleans are the
  \<open>is_active\<close> values the source writes into the insert record or the update patch.
  The source has no \<open>delete\<close> call, hence no constructor for one.

  An async function \<open>f\<close> of the page is modelled in the parts its \<open>await\<close>s cut it
  into: \<open>f_begin\<close> runs to the first \<open>await\<close> and returns the new page state with the
  request the call is suspended on (no request: the call has returned), \<open>f_resume\<close>
  continues from there with the response.  Other calls may run between two parts; a
  part reads the page state of the moment it runs, as the updater functions passed to
  the state setters do.
\<close>

datatype request =
    SelectOrgProfiles string
      \<comment> \<open>\<open>profiles\<close>, \<open>eq org_id\<close>, \<open>eq is_active true\<close>, ordered by role, full name\<close>
  | SelectOrgProjects string
      \<comment> \<open>\<open>projects\<close>, \<open>eq org_id\<close>, ordered by name ascending\<close>
  | SelectViewerMemberships string
      \<comment> \<open>\<open>project_members\<close> joined to \<open>projects\<close>, \<open>eq profile_id\<close>, \<open>eq is_active true\<close>\<close>
  | SelectProjectMembers string
      \<comment> \<open>\<open>project_members\<close>, \<open>eq project_id\<close>, \<open>eq is_active true\<close>\<close>
  | InsertProject string string bool
      \<comment> \<open>\<open>insert {org_id, name, is_active}\<close> into \<open>projects\<close>, returning the row\<close>
  | InsertMember "string option" string string bool
      \<comment> \<open>\<open>insert {org_id, project_id, profile_id, is_active}\<close> into \<open>project_members\<close>\<close>
  | UpdateMemberActive string bool
      \<comment> \<open>\<open>update {is_active}\<close> on \<open>project_members\<close>, \<open>eq id\<close>\<close>

text \<open>
  A response is the client's \<open>{ data, error }\<close> pair: either the data with a null error
  or a null data with an error, of which the page reads the message only.
\<close>

datatype 'a response = Success 'a | Failure string

fun data :: "'a response \<Rightarrow> 'a option" where
  "data (Success d) = Some d"
| "data (Failure m) = None"

fun error :: "'a response \<Rightarrow> string option" where
  "error (Success d) = None"
| "error (Failure m) = Some m"

text \<open>The idiom \<open>(data ?? [])\<close>.\<close>

definition or_empty :: "'a list option \<Rightarrow> 'a list" where
  "or_empty d = (case d of None \<Rightarrow> [] | Some rows \<Rightarrow> rows)"

section \<open>The store\<close>

text \<open>
  The relational store is an external service.  Its tables hold the columns the page
  selects plus \<open>org_id\<close> on membership rows.
\<close>

record member_rec =
  mr_id :: string
  mr_org_id :: "string option"
  mr_project_id :: string
  mr_profile_id :: string
  mr_is_active :: "bool option"

record store =
  projects_tbl :: "ProjectRow list"
  members_tbl :: "member_rec list"

text \<open>The column list \<open>id, project_id, profile_id, is_active\<close> of a membership row.\<close>

definition member_cols :: "member_rec \<Rightarrow> MemberRow" where
  "member_cols r =
     \<lparr>pm_id = mr_id r, pm_project_id = mr_project_id r,
      pm_profile_id = mr_profile_id r, pm_is_active = mr_is_active r\<rparr>"

text \<open>
  Modelled from the spec: the store's \<open>select(table, columns, filters, order)\<close> with
  equality filters, here for \<open>SelectProjectMembers\<close>: the rows of \<open>project_members\<close>
  whose \<open>project_id\<close> is the given one and whose \<open>is_active\<close> is \<open>true\<close>.
\<close>

definition select_project_members :: "store \<Rightarrow> string \<Rightarrow> MemberRow list" where
  "select_project_members db projectId =
     map member_cols
       (filter (\<lambda>r. mr_project_id r = projectId \<and> mr_is_active r = Some True)
          (members_tbl db))"

text \<open>
  A store call either answers or fails with a message; \<open>fault\<close> says which
  (\<open>None\<close>: the store answers).
\<close>

definition respond :: "string option \<Rightarrow> 'a \<Rightarrow> 'a response" where
  "respond fault rows = (case fault of None \<Rightarrow> Success rows | Some m \<Rightarrow> Failure m)"

section \<open>Load/refresh members\<close>

text \<open>
  \<open>loadMembers\<close> runs to its \<open>await\<close> (\<open>loadMembers_begin\<close>: the message buffer is
  cleared, the select is issued) and resumes with the response
  (\<open>loadMembers_resume\<close>).  The write-back \<open>{ ...prev, [projectId]: data ?? [] }\<close> is a
  map update.
\<close>

definition loadMembers_begin :: "string \<Rightarrow> page \<Rightarrow> page \<times> request" where
  "loadMembers_begin projectId st = (st\<lparr>msg := ''''\<rparr>, SelectProjectMembers projectId)"

definition loadMembers_resume :: "string \<Rightarrow> MemberRow list response \<Rightarrow> page \<Rightarrow> page" where
  "loadMembers_resume projectId r st =
     (case error r of
        Some m \<Rightarrow> st\<lparr>msg := m\<rparr>
      | None \<Rightarrow> st\<lparr>membersByProject := (membersByProject st)(projectId \<mapsto> or_empty (data r))\<rparr>)"

text \<open>
  The whole call against a store, with nothing interleaved: the request issued by the
  first part is answered by the store and the answer resumes the call.
\<close>

definition loadMembers :: "store \<Rightarrow> string option \<Rightarrow> string \<Rightarrow> page \<Rightarrow> page" where
  "loadMembers db fault projectId st =
     (case loadMembers_begin projectId st of
        (st1, SelectProjectMembers pid) \<Rightarrow>
          loadMembers_resume projectId (respond fault (select_project_members db pid)) st1
      | (st1, _) \<Rightarrow> st1)"

section \<open>Ordering by a comparison\<close>

text \<open>
  Both orderings of the page are by name: the store's \<open>order("name", ascending)\<close> and
  the client's \<open>sort((a, b) => a.name.localeCompare(b.name))\<close>.  Neither the store's
  collation nor the locale's is fixed by the source, so the comparison is a parameter.
  \<open>Array.prototype.sort\<close> is stable; with a comparison that is total and transitive
  its result is the stable insertion sort below.
\<close>

fun insort_by :: "('a \<Rightarrow> 'a \<Rightarrow> bool) \<Rightarrow> 'a \<Rightarrow> 'a list \<Rightarrow> 'a list" where
  "insort_by le x [] = [x]"
| "insort_by le x (y # ys) = (if le x y then x # y # ys else y # insort_by le x ys)"

definition sort_by :: "('a \<Rightarrow> 'a \<Rightarrow> bool) \<Rightarrow> 'a list \<Rightarrow> 'a list" where
  "sort_by le xs = foldr (insort_by le) xs []"

definition js_sort :: "('a \<Rightarrow> 'a \<Rightarrow> int) \<Rightarrow> 'a list \<Rightarrow> 'a list" where
  "js_sort cmp xs = sort_by (\<lambda>a b. cmp a b \<le> 0) xs"

definition total_preorder :: "('a \<Rightarrow> 'a \<Rightarrow> bool) \<Rightarrow> bool" where
  "total_preorder le =
     ((\<forall>a b. le a b \<or> le b a) \<and> (\<forall>a b c. le a b \<longrightarrow> le b c \<longrightarrow> le a c))"

section \<open>The remaining store queries\<close>

text \<open>
  Modelled from the spec: the ordered select for \<open>SelectOrgProjects\<close>, all rows of
  \<open>projects\<close> with the given \<open>org_id\<close>, ordered by name under the store's collation \<open>le\<close>.
\<close>

definition select_org_projects ::
  "(string \<Rightarrow> string \<Rightarrow> bool) \<Rightarrow> store \<Rightarrow> string \<Rightarrow> ProjectRow list" where
  "select_org_projects le db org =
     sort_by (\<lambda>a b. le (pj_name a) (pj_name b))
       (filter (\<lambda>p. pj_org_id p = org) (projects_tbl db))"

text \<open>
  A row of the relational join projection \<open>project_id, projects(...)\<close>: the membership's
  project id and the project it refers to, null when the store finds none.
\<close>

record joined_row =
  jr_project_id :: string
  jr_projects :: "ProjectRow option"

text \<open>
  Modelled from the spec: the select with the join projection from membership to project
  for \<open>SelectViewerMemberships\<close>, one joined row for each row of \<open>project_members\<close>
  whose \<open>profile_id\<close> is the given one and whose \<open>is_active\<close> is \<open>true\<close>.
\<close>

definition select_viewer_memberships :: "store \<Rightarrow> string \<Rightarrow> joined_row list" where
  "select_viewer_memberships db uid =
     map (\<lambda>r. \<lparr>jr_project_id = mr_project_id r,
               jr_projects = find (\<lambda>p. pj_id p = mr_project_id r) (projects_tbl db)\<rparr>)
       (filter (\<lambda>r. mr_profile_id r = uid \<and> mr_is_active r = Some True) (members_tbl db))"

text \<open>
  Modelled from the spec: \<open>update(table, patch, filter)\<close> for \<open>UpdateMemberActive\<close>,
  the patch \<open>{is_active}\<close> applied to the rows of \<open>project_members\<close> with the given id.
\<close>

definition update_member_active :: "store \<Rightarrow> string \<Rightarrow> bool \<Rightarrow> store" where
  "update_member_active db memberId b =
     db\<lparr>members_tbl :=
          map (\<lambda>r. if mr_id r = memberId then r\<lparr>mr_is_active := Some b\<rparr> else r)
            (members_tbl db)\<rparr>"

section \<open>The visibility effect\<close>

text \<open>The optional chain \<open>profile?.org_id\<close>.\<close>

definition org_of :: "viewer option \<Rightarrow> string option" where
  "org_of profile = (case profile of None \<Rightarrow> None | Some p \<Rightarrow> vw_org_id p)"

text \<open>
  One run of the effect: its \<open>cancelled\<close> variable and the values its closure captured.
  The cleanup function returned by the effect is \<open>cleanup\<close>; nothing else assigns
  \<open>cancelled\<close>.  React calls the cleanup when one of the dependencies
  \<open>[profile?.org_id, userId, isAdminOrManager]\<close> has changed, before it starts the next
  run.
\<close>

record effect_run =
  cancelled :: bool
  er_org_id :: string
  er_userId :: string
  er_privileged :: bool

definition cleanup :: "effect_run \<Rightarrow> effect_run" where
  "cleanup run = run\<lparr>cancelled := True\<rparr>"

text \<open>The updater \<open>(m) => (m ? `${m}\n${error.message}` : error.message)\<close>.\<close>

definition append_msg :: "string \<Rightarrow> string \<Rightarrow> string" where
  "append_msg m e = (if m \<noteq> '''' then m @ [CHR 0x0A] @ e else e)"

text \<open>
  The effect up to its first \<open>await\<close>: nothing happens while the organisation or the
  user id is unresolved (absent or empty); otherwise the message buffer is cleared and
  the directory fetch is issued.
\<close>

definition effect_begin ::
  "viewer option \<Rightarrow> string option \<Rightarrow> page \<Rightarrow> page \<times> (effect_run \<times> request) option" where
  "effect_begin profile userId st =
     (case org_of profile of
        None \<Rightarrow> (st, None)
      | Some org \<Rightarrow>
          (case userId of
             None \<Rightarrow> (st, None)
           | Some uid \<Rightarrow>
               if org = '''' \<or> uid = '''' then (st, None)
               else (st\<lparr>msg := ''''\<rparr>,
                     Some (\<lparr>cancelled = False, er_org_id = org, er_userId = uid,
                             er_privileged = isAdminOrManager profile\<rparr>,
                           SelectOrgProfiles org))))"

text \<open>
  The directory response arrives: the guarded write-back, then the projects fetch of the
  branch the role selects (issued whether or not the run is cancelled).
\<close>

definition effect_profiles_resume ::
  "effect_run \<Rightarrow> ProfileRow list response \<Rightarrow> page \<Rightarrow> page \<times> request" where
  "effect_profiles_resume run r st =
     (let st1 =
        (if \<not> cancelled run then
           (case error r of Some m \<Rightarrow> st\<lparr>msg := m\<rparr> | None \<Rightarrow> st)
             \<lparr>orgProfiles := or_empty (data r)\<rparr>
         else st)
      in (st1, if er_privileged run then SelectOrgProjects (er_org_id run)
               else SelectViewerMemberships (er_userId run)))"

text \<open>The privileged branch resumes with the project rows.\<close>

definition effect_projects_resume ::
  "effect_run \<Rightarrow> ProjectRow list response \<Rightarrow> page \<Rightarrow> page" where
  "effect_projects_resume run r st =
     (if \<not> cancelled run then
        (case error r of Some e \<Rightarrow> st\<lparr>msg := append_msg (msg st) e\<rparr> | None \<Rightarrow> st)
          \<lparr>projects := or_empty (data r)\<rparr>
      else st)"

text \<open>
  The other branch resumes with the joined rows: \<open>.map((x) => x.projects)\<close>,
  \<open>.filter(Boolean)\<close>, then \<open>.filter((p) => p.is_active !== false)\<close>.
\<close>

definition filter_Boolean :: "'a option list \<Rightarrow> 'a list" where
  "filter_Boolean xs = List.map_filter (\<lambda>x. x) xs"

definition effect_memberships_resume ::
  "effect_run \<Rightarrow> joined_row list response \<Rightarrow> page \<Rightarrow> page" where
  "effect_memberships_resume run r st =
     (if \<not> cancelled run then
        (let st1 = (case error r of Some e \<Rightarrow> st\<lparr>msg := append_msg (msg st) e\<rparr> | None \<Rightarrow> st);
             list = filter_Boolean (map jr_projects (or_empty (data r)))
         in st1\<lparr>projects := filter (\<lambda>p. pj_is_active p \<noteq> Some False) list\<rparr>)
      else st)"

text \<open>
  A run that no dependency change interrupts, against a store: \<open>profs\<close> is the
  directory response, \<open>fault\<close> the outcome of the projects fetch.
\<close>

definition resolve ::
  "(string \<Rightarrow> string \<Rightarrow> bool) \<Rightarrow> store \<Rightarrow> viewer option \<Rightarrow> string option \<Rightarrow>
     ProfileRow list response \<Rightarrow> string option \<Rightarrow> page \<Rightarrow> page" where
  "resolve le db profile userId profs fault st =
     (case effect_begin profile userId st of
        (st0, None) \<Rightarrow> st0
      | (st0, Some (run, rq)) \<Rightarrow>
          (case effect_profiles_resume run profs st0 of
             (st1, SelectOrgProjects org) \<Rightarrow>
               effect_projects_resume run (respond fault (select_org_projects le db org)) st1
           | (st1, SelectViewerMemberships uid) \<Rightarrow>
               effect_memberships_resume run (respond fault (select_viewer_memberships db uid)) st1
           | (st1, _) \<Rightarrow> st1))"

section \<open>Project creation\<close>

text \<open>
  \<open>String.prototype.trim\<close> on a string whose code units are below 256, one \<open>char\<close>
  each: the white space and line terminators in that range are tab, line feed, vertical
  tab, form feed, carriage return, space and no-break space.
\<close>

definition js_whitespace :: "char \<Rightarrow> bool" where
  "js_whitespace c =
     (c \<in> set [CHR 0x09, CHR 0x0A, CHR 0x0B, CHR 0x0C, CHR 0x0D, CHR '' '', CHR 0xA0])"

definition trim :: "string \<Rightarrow> string" where
  "trim s = rev (dropWhile js_whitespace (rev (dropWhile js_whitespace s)))"

text \<open>
  \<open>createProject\<close> up to its \<open>await\<close>: the three guards in the order of the source,
  then \<open>setBusy(true)\<close>, \<open>setMsg("")\<close> and the insert.  No request means the call
  returned without contacting the store.
\<close>

definition createProject_begin :: "viewer option \<Rightarrow> page \<Rightarrow> page \<times> request option" where
  "createProject_begin profile st =
     (case org_of profile of
        None \<Rightarrow> (st, None)
      | Some org \<Rightarrow>
          if org = '''' then (st, None)
          else if \<not> isAdminOrManager profile then
            (st\<lparr>msg := ''Only admin/manager can create projects.''\<rparr>, None)
          else
            (let name = trim (newName st) in
               if name = '''' then (st, None)
               else (st\<lparr>busy := True, msg := ''''\<rparr>, Some (InsertProject org name True))))"

text \<open>
  The insert's response arrives; \<open>localeCompare\<close> is the parameter \<open>lc\<close>.
\<close>

definition createProject_resume ::
  "(string \<Rightarrow> string \<Rightarrow> int) \<Rightarrow> ProjectRow response \<Rightarrow> page \<Rightarrow> page" where
  "createProject_resume lc r st =
     (let st1 = st\<lparr>busy := False\<rparr> in
        case r of
          Failure m \<Rightarrow> st1\<lparr>msg := m\<rparr>
        | Success row \<Rightarrow>
            st1\<lparr>projects := js_sort (\<lambda>a b. lc (pj_name a) (pj_name b)) (projects st1 @ [row]),
                newName := ''''\<rparr>)"

section \<open>Adding and removing members\<close>

definition addMember_begin ::
  "viewer option \<Rightarrow> string \<Rightarrow> string \<Rightarrow> page \<Rightarrow> page \<times> request option" where
  "addMember_begin profile projectId profileId st =
     (let st1 = st\<lparr>msg := ''''\<rparr> in
        if profileId = '''' then (st1, None)
        else (st1, Some (InsertMember (org_of profile) projectId profileId True)))"

text \<open>
  After the insert, and likewise after the update of \<open>removeMember\<close>: an error is
  reported and ends the call, otherwise \<open>loadMembers(projectId)\<close> starts.
\<close>

definition addMember_resume :: "string \<Rightarrow> unit response \<Rightarrow> page \<Rightarrow> page \<times> request option" where
  "addMember_resume projectId r st =
     (case error r of
        Some m \<Rightarrow> (st\<lparr>msg := m\<rparr>, None)
      | None \<Rightarrow> (case loadMembers_begin projectId st of (st1, rq) \<Rightarrow> (st1, Some rq)))"

definition removeMember_begin :: "string \<Rightarrow> page \<Rightarrow> page \<times> request" where
  "removeMember_begin memberId st = (st\<lparr>msg := ''''\<rparr>, UpdateMemberActive memberId False)"

definition removeMember_resume ::
  "string \<Rightarrow> unit response \<Rightarrow> page \<Rightarrow> page \<times> request option" where
  "removeMember_resume projectId r st =
     (case error r of
        Some m \<Rightarrow> (st\<lparr>msg := m\<rparr>, None)
      | None \<Rightarrow> (case loadMembers_begin projectId st of (st1, rq) \<Rightarrow> (st1, Some rq)))"

text \<open>
  The whole of \<open>removeMember\<close> against a store, with nothing interleaved: \<open>fault1\<close> is
  the outcome of the update, \<open>fault2\<close> that of the refresh.  A failed update leaves the
  store as it was.
\<close>

definition removeMember ::
  "string option \<Rightarrow> string option \<Rightarrow> string \<Rightarrow> string \<Rightarrow> store \<times> page \<Rightarrow> store \<times> page" where
  "removeMember fault1 fault2 projectId memberId w =
     (case w of (db, st) \<Rightarrow>
        (case removeMember_begin memberId st of
           (st1, UpdateMemberActive mid b) \<Rightarrow>
             (let db1 = (case fault1 of None \<Rightarrow> update_member_active db mid b | Some m \<Rightarrow> db)
              in case removeMember_resume projectId (respond fault1 ()) st1 of
                   (st2, Some (SelectProjectMembers pid)) \<Rightarrow>
                     (db1, loadMembers_resume projectId
                             (respond fault2 (select_project_members db1 pid)) st2)
                 | (st2, _) \<Rightarrow> (db1, st2))
         | (st1, _) \<Rightarrow> (db, st1)))"

section \<open>Candidate derivation\<close>

text \<open>
  \<open>membersByProject\<close> is a plain object (\<open>useState({})\<close>, rebuilt by object spread), so
  the read \<open>membersByProject[p.id]\<close> finds an own property, the map entry, and otherwise
  walks to \<open>Object.prototype\<close>.  The keys below are the properties of \<open>Object.prototype\<close>;
  each of them reads as a function or, for \<open>__proto__\<close>, as the prototype object itself:
  a truthy value that is not an array.  Every other key without an entry reads as
  \<open>undefined\<close>.
\<close>

definition inherited_property :: "string \<Rightarrow> bool" where
  "inherited_property k =
     (k \<in> set [''constructor'', ''toString'', ''toLocaleString'', ''valueOf'',
               ''hasOwnProperty'', ''isPrototypeOf'', ''propertyIsEnumerable'', ''__proto__'',
               ''__defineGetter__'', ''__defineSetter__'', ''__lookupGetter__'',
               ''__lookupSetter__''])"

text \<open>
  The value of \<open>membersByProject[p.id] || []\<close>: the loaded rows (an array is truthy even
  when empty), the inherited value, or the empty array in place of \<open>undefined\<close>.
\<close>

datatype members_value = Array "MemberRow list" | NotArray

definition members_or_empty :: "page \<Rightarrow> string \<Rightarrow> members_value" where
  "members_or_empty st k =
     (case membersByProject st k of
        Some ms \<Rightarrow> Array ms
      | None \<Rightarrow> if inherited_property k then NotArray else Array [])"

datatype js_error = TypeError

text \<open>
  \<open>candidatePeople\<close> as the render computes it for a project \<open>p\<close>: \<open>focusUser\<close> is the
  \<open>user\<close> search parameter or the empty string.  The third filter calls
  \<open>members.some\<close> for each profile the first two have kept; on a value that is not an
  array \<open>members.some\<close> is not a function and the first call throws.
\<close>

definition candidatePeople ::
  "page \<Rightarrow> string \<Rightarrow> ProjectRow \<Rightarrow> js_error + ProfileRow list" where
  "candidatePeople st focusUser p =
     (let members = members_or_empty st (pj_id p);
          narrowed =
            filter (\<lambda>x. if focusUser \<noteq> '''' then pf_id x = focusUser else True)
              (filter (\<lambda>x. pf_is_active x \<noteq> Some False) (orgProfiles st))
      in case members of
           Array ms \<Rightarrow>
             Inr (filter (\<lambda>x. \<not> list_ex (\<lambda>m. pm_profile_id m = pf_id x) ms) narrowed)
         | NotArray \<Rightarrow> if narrowed = [] then Inr [] else Inl TypeError)"

text \<open>
  The same list in the words of the specification: the active profiles of the directory
  without those already members of the project, narrowed to the focus profile when one
  is supplied.
\<close>

definition activeOrgProfiles :: "page \<Rightarrow> ProfileRow list" where
  "activeOrgProfiles st = filter (\<lambda>x. pf_is_active x \<noteq> Some False) (orgProfiles st)"

definition alreadyMembers :: "page \<Rightarrow> string \<Rightarrow> string set" where
  "alreadyMembers st projectId =
     (case membersByProject st projectId of
        None \<Rightarrow> {}
      | Some ms \<Rightarrow> set (map pm_profile_id ms))"

definition candidates_spec :: "page \<Rightarrow> string \<Rightarrow> string \<Rightarrow> ProfileRow list" where
  "candidates_spec st focus projectId =
     filter (\<lambda>x. pf_id x \<notin> alreadyMembers st projectId)
       (if focus = '''' then activeOrgProfiles st
        else filter (\<lambda>x. pf_id x = focus) (activeOrgProfiles st))"

section \<open>A small organisation\<close>

text \<open>
  The scenario of the specification: profiles A (admin), B and C (contractors) in one
  organisation, projects P1 and P2, and one active membership of B in P1.  A second
  membership of C in P2 has been removed (it is inactive), and a retired project P3 still
  has an active membership of B.
\<close>

definition scn_P1 :: ProjectRow where
  "scn_P1 = \<lparr>pj_id = ''p1'', pj_org_id = ''org'', pj_name = ''Alpha'',
             pj_parent_id = None, pj_is_active = Some True\<rparr>"

definition scn_P2 :: ProjectRow where
  "scn_P2 = \<lparr>pj_id = ''p2'', pj_org_id = ''org'', pj_name = ''Beta'',
             pj_parent_id = None, pj_is_active = None\<rparr>"

definition scn_P3 :: ProjectRow where
  "scn_P3 = \<lparr>pj_id = ''p3'', pj_org_id = ''org'', pj_name = ''Aardvark'',
             pj_parent_id = None, pj_is_active = Some False\<rparr>"

definition scn_store :: store where
  "scn_store =
     \<lparr>projects_tbl = [scn_P2, scn_P1, scn_P3],
      members_tbl =
        [\<lparr>mr_id = ''m1'', mr_org_id = Some ''org'', mr_project_id = ''p1'',
          mr_profile_id = ''B'', mr_is_active = Some True\<rparr>,
         \<lparr>mr_id = ''m2'', mr_org_id = Some ''org'', mr_project_id = ''p2'',
          mr_profile_id = ''C'', mr_is_active = Some False\<rparr>,
         \<lparr>mr_id = ''m3'', mr_org_id = Some ''org'', mr_project_id = ''p3'',
          mr_profile_id = ''B'', mr_is_active = Some True\<rparr>]\<rparr>"

definition scn_A :: ProfileRow where
  "scn_A = \<lparr>pf_id = ''A'', pf_full_name = Some ''Ada'', pf_role = admin,
            pf_is_active = Some True, pf_manager_id = None\<rparr>"

definition scn_B :: ProfileRow where
  "scn_B = \<lparr>pf_id = ''B'', pf_full_name = Some ''Bo'', pf_role = contractor,
            pf_is_active = Some True, pf_manager_id = Some ''A''\<rparr>"

definition scn_C :: ProfileRow where
  "scn_C = \<lparr>pf_id = ''C'', pf_full_name = None, pf_role = contractor,
            pf_is_active = None, pf_manager_id = Some ''A''\<rparr>"

definition scn_viewer :: "Role \<Rightarrow> viewer option" where
  "scn_viewer r = Some \<lparr>vw_org_id = Some ''org'', vw_role = r\<rparr>"

text \<open>The page as \<open>useState\<close> initialises it, and a page that has loaded something.\<close>

definition initial_page :: page where
  "initial_page =
     \<lparr>projects = [], orgProfiles = [], membersByProject = Map.empty,
      msg = '''', busy = False, newName = ''''\<rparr>"

definition scn_page :: page where
  "scn_page =
     \<lparr>projects = [scn_P1, scn_P2], orgProfiles = [scn_A, scn_B, scn_C],
      membersByProject =
        [''p1'' \<mapsto> [\<lparr>pm_id = ''m1'', pm_project_id = ''p1'', pm_profile_id = ''B'',
                      pm_is_active = Some True\<rparr>]],
      msg = ''earlier message'', busy = False, newName = ''  Gamma ''\<rparr>"

text \<open>
  A comparison of names for the examples: by the byte values of the characters, a shorter
  name before its extensions.
\<close>

fun bytes_le :: "string \<Rightarrow> string \<Rightarrow> bool" where
  "bytes_le [] ys = True"
| "bytes_le (x # xs) [] = False"
| "bytes_le (x # xs) (y # ys) =
     ((of_char x :: nat) < of_char y \<or> (x = y \<and> bytes_le xs ys))"

definition bytes_compare :: "string \<Rightarrow> string \<Rightarrow> int" where
  "bytes_compare a b = (if a = b then 0 else if bytes_le a b then - 1 else 1)"

text \<open>The three caches of the page: project list, directory, membership map.\<close>

definition caches ::
  "page \<Rightarrow> ProjectRow list \<times> ProfileRow list \<times> (string \<rightharpoonup> MemberRow list)" where
  "caches st = (projects st, orgProfiles st, membersByProject st)"

text \<open>The runs of the effect that viewer B (a contractor) and viewer A (the admin) start.\<close>

definition scn_run_B :: effect_run where
  "scn_run_B = \<lparr>cancelled = False, er_org_id = ''org'', er_userId = ''B'', er_privileged = False\<rparr>"

definition scn_run_A :: effect_run where
  "scn_run_A = \<lparr>cancelled = False, er_org_id = ''org'', er_userId = ''A'', er_privileged = True\<rparr>"

section \<open>Properties\<close>

subsection \<open>Sorting by a comparison\<close>

lemma mset_insort_by: "mset (insort_by le x xs) = add_mset x (mset xs)"
  by (induction xs) auto

lemma mset_sort_by: "mset (sort_by le xs) = mset xs"
  unfolding sort_by_def by (induction xs) (auto simp: mset_insort_by)

lemma set_insort_by: "set (insort_by le x xs) = insert x (set xs)"
  by (induction xs) auto

lemma sorted_insort_by:
  assumes "total_preorder le" and "sorted_wrt le xs"
  shows "sorted_wrt le (insort_by le x xs)"
  using assms(2)
proof (induction xs)
  case Nil
  show ?case by simp
next
  case (Cons y ys)
  have tot: "\<And>a b. le a b \<or> le b a" and tr: "\<And>a b c. le a b \<Longrightarrow> le b c \<Longrightarrow> le a c"
    using assms(1) unfolding total_preorder_def by blast+
  show ?case
  proof (cases "le x y")
    case True
    with Cons.prems tr show ?thesis by auto
  next
    case False
    with tot have "le y x" by blast
    with Cons False show ?thesis by (auto simp: set_insort_by)
  qed
qed

lemma sorted_sort_by: "total_preorder le \<Longrightarrow> sorted_wrt le (sort_by le xs)"
  unfolding sort_by_def by (induction xs) (auto intro: sorted_insort_by)

lemma total_preorder_key: "total_preorder le \<Longrightarrow> total_preorder (\<lambda>a b. le (f a) (f b))"
  unfolding total_preorder_def by blast

lemma bytes_le_refl: "bytes_le a a"
  by (induction a) auto

lemma bytes_le_total: "bytes_le a b \<or> bytes_le b a"
  by (induction a b rule: bytes_le.induct) auto

lemma bytes_le_trans: "bytes_le a b \<Longrightarrow> bytes_le b c \<Longrightarrow> bytes_le a c"
proof (induction a b arbitrary: c rule: bytes_le.induct)
  case (1 ys)
  show ?case by simp
next
  case (2 x xs)
  then show ?case by simp
next
  case (3 x xs y ys)
  then show ?case by (cases c) auto
qed

lemma bytes_le_Nil: "bytes_le ys [] \<Longrightarrow> ys = []"
  by (cases ys) auto

lemma bytes_le_antisym: "bytes_le a b \<Longrightarrow> bytes_le b a \<Longrightarrow> a = b"
  by (induction a b rule: bytes_le.induct) (auto dest: bytes_le_Nil)

lemma total_preorder_bytes_le: "total_preorder bytes_le"
  unfolding total_preorder_def using bytes_le_total bytes_le_trans by blast

lemma bytes_compare_le: "(bytes_compare a b \<le> 0) = bytes_le a b"
  using bytes_le_total [of a b] bytes_le_antisym [of a b]
  by (auto simp: bytes_compare_def bytes_le_refl)

lemma total_preorder_bytes_compare: "total_preorder (\<lambda>a b. bytes_compare a b \<le> 0)"
  using total_preorder_bytes_le by (simp add: bytes_compare_le)

subsection \<open>Load/refresh members\<close>

lemma loadMembers_ok:
  "loadMembers db None projectId st =
     st\<lparr>msg := '''',
        membersByProject := (membersByProject st)(projectId \<mapsto> select_project_members db projectId)\<rparr>"
  by (simp add: loadMembers_def loadMembers_begin_def loadMembers_resume_def respond_def
      or_empty_def)

lemma loadMembers_fail:
  "loadMembers db (Some m) projectId st = st\<lparr>msg := m\<rparr>"
  by (simp add: loadMembers_def loadMembers_begin_def loadMembers_resume_def respond_def)

text \<open>
  C7.  Load/refresh members issues the select of the project's membership rows with
  \<open>is_active = true\<close>.  On success the project's cached set becomes exactly the rows of
  the response, whatever was cached before (against the store: the project's rows with
  \<open>is_active = true\<close>), so a second load with no mutation in between changes nothing.  On
  failure the message buffer holds the store's message and the membership map is the one
  from before the call.
\<close>

theorem loadMembers_replaces_or_keeps:
  "snd (loadMembers_begin projectId st) = SelectProjectMembers projectId
   \<and> membersByProject (loadMembers_resume projectId (Success rows) st) projectId = Some rows
   \<and> loadMembers_resume projectId (Failure m) st = st\<lparr>msg := m\<rparr>
   \<and> membersByProject (loadMembers db None projectId st) projectId
       = Some (map member_cols
                 (filter (\<lambda>r. mr_project_id r = projectId \<and> mr_is_active r = Some True)
                    (members_tbl db)))
   \<and> loadMembers db None projectId (loadMembers db None projectId st)
       = loadMembers db None projectId st
   \<and> msg (loadMembers db (Some m) projectId st) = m
   \<and> membersByProject (loadMembers db (Some m) projectId st) = membersByProject st"
  by (simp add: loadMembers_ok loadMembers_fail loadMembers_begin_def loadMembers_resume_def
      or_empty_def select_project_members_def)

theorem loadMembers_replaces_or_keeps_witness:
  "membersByProject (loadMembers scn_store None ''p2'' scn_page) ''p2'' = Some []
   \<and> membersByProject (loadMembers_resume ''p1'' (Success []) scn_page) ''p1'' = Some []
   \<and> msg (loadMembers scn_store (Some ''timeout'') ''p1'' scn_page) = ''timeout''
   \<and> membersByProject (loadMembers scn_store (Some ''timeout'') ''p1'' scn_page) ''p1''
       = membersByProject scn_page ''p1''"
  using loadMembers_replaces_or_keeps [of "''p2''" scn_page "[]" "''timeout''" scn_store]
    loadMembers_replaces_or_keeps [of "''p1''" scn_page "[]" "''timeout''" scn_store]
  by (simp add: scn_store_def)

text \<open>
  C9.  A successful load/refresh of one project changes the membership-map entry of that
  project only: the entry of every other project id, the project list, the directory
  cache and the name input are the ones from before the call (and so is the busy flag).
\<close>

theorem loadMembers_frame:
  "(\<forall>q. q \<noteq> projectId \<longrightarrow>
        membersByProject (loadMembers db None projectId st) q = membersByProject st q)
   \<and> projects (loadMembers db None projectId st) = projects st
   \<and> orgProfiles (loadMembers db None projectId st) = orgProfiles st
   \<and> newName (loadMembers db None projectId st) = newName st
   \<and> busy (loadMembers db None projectId st) = busy st
   \<and> (\<forall>q. q \<noteq> projectId \<longrightarrow>
        membersByProject (loadMembers_resume projectId (Success rows) st) q
          = membersByProject st q)
   \<and> projects (loadMembers_resume projectId (Success rows) st) = projects st
   \<and> orgProfiles (loadMembers_resume projectId (Success rows) st) = orgProfiles st
   \<and> newName (loadMembers_resume projectId (Success rows) st) = newName st"
  by (simp add: loadMembers_ok loadMembers_resume_def)

theorem loadMembers_frame_witness:
  "''p1'' \<noteq> ''p2''
   \<and> membersByProject (loadMembers scn_store None ''p2'' scn_page) ''p1''
       = Some [\<lparr>pm_id = ''m1'', pm_project_id = ''p1'', pm_profile_id = ''B'',
                pm_is_active = Some True\<rparr>]
   \<and> projects (loadMembers scn_store None ''p2'' scn_page) = [scn_P1, scn_P2]
   \<and> orgProfiles (loadMembers scn_store None ''p2'' scn_page) = [scn_A, scn_B, scn_C]
   \<and> newName (loadMembers scn_store None ''p2'' scn_page) = ''  Gamma ''"
  using loadMembers_frame [of "''p2''" scn_store scn_page "[]"]
  by (simp add: scn_page_def)

subsection \<open>Project creation\<close>

lemma trim_empty_iff: "(trim s = '''') = (\<forall>c \<in> set s. js_whitespace c)"
proof
  assume "trim s = ''''"
  then have a: "\<forall>c \<in> set (dropWhile js_whitespace s). js_whitespace c"
    by (simp add: trim_def)
  have "dropWhile js_whitespace s = []"
  proof (cases "dropWhile js_whitespace s")
    case Nil
    then show ?thesis .
  next
    case (Cons y ys)
    then have "\<not> js_whitespace y"
      using hd_dropWhile [of js_whitespace s] by simp
    with a Cons show ?thesis by simp
  qed
  then show "\<forall>c \<in> set s. js_whitespace c"
    by simp
next
  assume "\<forall>c \<in> set s. js_whitespace c"
  then have "dropWhile js_whitespace s = []"
    by simp
  then show "trim s = ''''"
    unfolding trim_def by (simp del: dropWhile_eq_Nil_conv)
qed

lemma createProject_resume_Success:
  "createProject_resume lc (Success row) st =
     st\<lparr>busy := False,
        projects := js_sort (\<lambda>a b. lc (pj_name a) (pj_name b)) (projects st @ [row]),
        newName := ''''\<rparr>"
  by (simp add: createProject_resume_def)

lemma createProject_resume_Failure:
  "createProject_resume lc (Failure m) st = st\<lparr>busy := False, msg := m\<rparr>"
  by (simp add: createProject_resume_def)

lemma sorted_js_sort_names:
  assumes "total_preorder (\<lambda>a b. lc a b \<le> (0::int))"
  shows "sorted_wrt (\<lambda>a b. lc (pj_name a) (pj_name b) \<le> 0)
           (js_sort (\<lambda>a b. lc (pj_name a) (pj_name b)) xs)"
  unfolding js_sort_def
  by (rule sorted_sort_by) (rule total_preorder_key [OF assms])

lemma trim_Gamma: "trim ''  Gamma '' = ''Gamma''"
  by (simp add: trim_def js_whitespace_def)

text \<open>
  C10.  While the viewer's organisation is unresolved (no profile, no \<open>org_id\<close>, or an
  empty one), \<open>createProject\<close> returns at its first guard for every caller: the page
  state, message buffer included, is the one from before the call and no request is
  issued.  The privilege check is never reached, so a caller who is not privileged gets
  no rejection message.
\<close>

theorem createProject_unresolved_org:
  "org_of profile = None \<or> org_of profile = Some '''' \<Longrightarrow>
     createProject_begin profile st = (st, None)"
  by (auto simp: createProject_begin_def)

theorem createProject_unresolved_org_witness:
  "org_of (Some \<lparr>vw_org_id = None, vw_role = contractor\<rparr>) = None
   \<and> \<not> isAdminOrManager (Some \<lparr>vw_org_id = None, vw_role = contractor\<rparr>)
   \<and> createProject_begin (Some \<lparr>vw_org_id = None, vw_role = contractor\<rparr>) scn_page
       = (scn_page, None)
   \<and> msg scn_page \<noteq> ''Only admin/manager can create projects.''
   \<and> org_of (Some \<lparr>vw_org_id = Some '''', vw_role = admin\<rparr>) = Some ''''
   \<and> createProject_begin (Some \<lparr>vw_org_id = Some '''', vw_role = admin\<rparr>) scn_page
       = (scn_page, None)
   \<and> createProject_begin None scn_page = (scn_page, None)"
  using createProject_unresolved_org [of "Some \<lparr>vw_org_id = None, vw_role = contractor\<rparr>" scn_page]
    createProject_unresolved_org [of "Some \<lparr>vw_org_id = Some '''', vw_role = admin\<rparr>" scn_page]
    createProject_unresolved_org [of None scn_page]
  by (simp add: org_of_def isAdminOrManager_def scn_page_def)

text \<open>
  C8 as stated fails: a caller who is not privileged and whose organisation is
  unresolved gets no rejection message.  The contractor below has no \<open>org_id\<close>; the call
  returns with the message buffer as it was.
\<close>

theorem createProject_rejection_counterexample:
  "\<not> isAdminOrManager (Some \<lparr>vw_org_id = None, vw_role = contractor\<rparr>)
   \<and> msg (fst (createProject_begin (Some \<lparr>vw_org_id = None, vw_role = contractor\<rparr>) initial_page))
       \<noteq> ''Only admin/manager can create projects.''"
  by (simp add: createProject_begin_def org_of_def isAdminOrManager_def initial_page_def)

text \<open>
  C8, amended.  With the viewer's organisation resolved:
  a privileged caller with a name that is not empty after trimming issues the insert of
  \<open>{org_id, name, is_active: true}\<close> with the trimmed name; when the insert succeeds the
  project list becomes the old list with the returned row, sorted as a whole by name
  (a permutation of the two, ordered under \<open>localeCompare\<close>), and the name input is
  cleared; when it fails the message buffer holds the error and neither the project
  list nor the name input changes.
  A privileged caller with a name of white space only returns with the state untouched
  and no request.
  A caller who is not privileged gets the rejection message and no request, and the
  project list does not change.
  For every caller, resolved or not, a name of white space only yields no request and
  no change of the project list.
\<close>

theorem createProject_contract:
  assumes "org_of profile = Some org" and "org \<noteq> ''''"
  shows
    "(isAdminOrManager profile \<and> trim (newName st) \<noteq> '''' \<longrightarrow>
        createProject_begin profile st
          = (st\<lparr>busy := True, msg := ''''\<rparr>, Some (InsertProject org (trim (newName st)) True)))
     \<and> projects (createProject_resume lc (Success row) st')
         = js_sort (\<lambda>a b. lc (pj_name a) (pj_name b)) (projects st' @ [row])
     \<and> mset (projects (createProject_resume lc (Success row) st'))
         = add_mset row (mset (projects st'))
     \<and> (total_preorder (\<lambda>a b. lc a b \<le> 0) \<longrightarrow>
          sorted_wrt (\<lambda>a b. lc (pj_name a) (pj_name b) \<le> 0)
            (projects (createProject_resume lc (Success row) st')))
     \<and> newName (createProject_resume lc (Success row) st') = ''''
     \<and> createProject_resume lc (Failure m) st' = st'\<lparr>busy := False, msg := m\<rparr>
     \<and> (isAdminOrManager profile \<and> (\<forall>c \<in> set (newName st). js_whitespace c) \<longrightarrow>
          createProject_begin profile st = (st, None))
     \<and> (\<not> isAdminOrManager profile \<longrightarrow>
          createProject_begin profile st
            = (st\<lparr>msg := ''Only admin/manager can create projects.''\<rparr>, None))
     \<and> (\<forall>p. (\<forall>c \<in> set (newName st). js_whitespace c) \<longrightarrow>
          snd (createProject_begin p st) = None
          \<and> projects (fst (createProject_begin p st)) = projects st)"
proof -
  have begin_priv: "isAdminOrManager profile \<and> trim (newName st) \<noteq> '''' \<longrightarrow>
        createProject_begin profile st
          = (st\<lparr>busy := True, msg := ''''\<rparr>, Some (InsertProject org (trim (newName st)) True))"
    using assms by (simp add: createProject_begin_def Let_def)
  have sorted: "total_preorder (\<lambda>a b. lc a b \<le> 0) \<longrightarrow>
          sorted_wrt (\<lambda>a b. lc (pj_name a) (pj_name b) \<le> 0)
            (projects (createProject_resume lc (Success row) st'))"
    by (simp add: createProject_resume_Success sorted_js_sort_names)
  have perm: "mset (projects (createProject_resume lc (Success row) st'))
         = add_mset row (mset (projects st'))"
    by (simp add: createProject_resume_Success js_sort_def mset_sort_by)
  have blank: "isAdminOrManager profile \<and> (\<forall>c \<in> set (newName st). js_whitespace c) \<longrightarrow>
          createProject_begin profile st = (st, None)"
    using assms trim_empty_iff [of "newName st"]
    by (simp add: createProject_begin_def Let_def)
  have reject: "\<not> isAdminOrManager profile \<longrightarrow>
          createProject_begin profile st
            = (st\<lparr>msg := ''Only admin/manager can create projects.''\<rparr>, None)"
    using assms by (simp add: createProject_begin_def)
  have blank_any: "\<forall>p. (\<forall>c \<in> set (newName st). js_whitespace c) \<longrightarrow>
          snd (createProject_begin p st) = None
          \<and> projects (fst (createProject_begin p st)) = projects st"
    using trim_empty_iff [of "newName st"]
    by (simp add: createProject_begin_def Let_def split: option.splits)
  show ?thesis
    using begin_priv sorted perm blank reject blank_any
    by (simp add: createProject_resume_Success createProject_resume_Failure)
qed

theorem createProject_contract_witness:
  "org_of (scn_viewer manager) = Some ''org'' \<and> ''org'' \<noteq> ''''
   \<and> createProject_begin (scn_viewer manager) scn_page
       = (scn_page\<lparr>busy := True, msg := ''''\<rparr>, Some (InsertProject ''org'' ''Gamma'' True))
   \<and> total_preorder (\<lambda>a b. bytes_compare a b \<le> 0)
   \<and> sorted_wrt (\<lambda>a b. bytes_compare (pj_name a) (pj_name b) \<le> 0)
       (projects (createProject_resume bytes_compare (Success scn_P3) scn_page))
   \<and> projects (createProject_resume bytes_compare (Success scn_P3) scn_page)
       = [scn_P3, scn_P1, scn_P2]
   \<and> projects (createProject_resume bytes_compare (Failure ''denied'') scn_page)
       = [scn_P1, scn_P2]
   \<and> createProject_begin (scn_viewer contractor) scn_page
       = (scn_page\<lparr>msg := ''Only admin/manager can create projects.''\<rparr>, None)
   \<and> createProject_begin (scn_viewer admin) (scn_page\<lparr>newName := ''   ''\<rparr>)
       = (scn_page\<lparr>newName := ''   ''\<rparr>, None)"
proof -
  have org: "org_of (scn_viewer manager) = Some ''org''"
    "org_of (scn_viewer contractor) = Some ''org''"
    "org_of (scn_viewer admin) = Some ''org''"
    by (simp_all add: org_of_def scn_viewer_def)
  have ne: "''org'' \<noteq> ''''" by simp
  have priv: "isAdminOrManager (scn_viewer manager)" "isAdminOrManager (scn_viewer admin)"
    "\<not> isAdminOrManager (scn_viewer contractor)"
    by (simp_all add: isAdminOrManager_def scn_viewer_def)
  have name: "trim (newName scn_page) = ''Gamma''"
    by (simp add: scn_page_def trim_Gamma)
  have blank: "\<forall>c \<in> set (newName (scn_page\<lparr>newName := ''   ''\<rparr>)). js_whitespace c"
    by (simp add: js_whitespace_def)
  have sorted_list: "js_sort (\<lambda>a b. bytes_compare (pj_name a) (pj_name b)) (projects scn_page @ [scn_P3])
      = [scn_P3, scn_P1, scn_P2]"
    by (simp add: js_sort_def sort_by_def scn_page_def scn_P1_def scn_P2_def scn_P3_def
        bytes_compare_le)
  have old: "projects scn_page = [scn_P1, scn_P2]"
    by (simp add: scn_page_def)
  show ?thesis
    using createProject_contract [OF org(1) ne, of scn_page bytes_compare scn_P3 scn_page "''denied''"]
      createProject_contract [OF org(2) ne, of scn_page bytes_compare scn_P3 scn_page "''denied''"]
      createProject_contract [OF org(3) ne, of "scn_page\<lparr>newName := ''   ''\<rparr>" bytes_compare scn_P3
        scn_page "''denied''"]
      org ne priv name blank sorted_list old total_preorder_bytes_compare
    by simp
qed

subsection \<open>Candidate derivation\<close>

lemma members_or_empty_loaded:
  "membersByProject st k = Some ms \<Longrightarrow> members_or_empty st k = Array ms"
  by (simp add: members_or_empty_def)

lemma members_or_empty_unloaded:
  "membersByProject st k = None \<Longrightarrow> \<not> inherited_property k \<Longrightarrow> members_or_empty st k = Array []"
  by (simp add: members_or_empty_def)

lemma candidatePeople_loaded:
  assumes "membersByProject st (pj_id p) = Some ms"
  shows "candidatePeople st focus p =
           Inr (filter (\<lambda>x. \<not> list_ex (\<lambda>m. pm_profile_id m = pf_id x) ms)
                  (filter (\<lambda>x. if focus \<noteq> '''' then pf_id x = focus else True)
                     (filter (\<lambda>x. pf_is_active x \<noteq> Some False) (orgProfiles st))))"
  by (simp add: candidatePeople_def members_or_empty_loaded [OF assms])

lemma candidatePeople_unloaded:
  assumes "membersByProject st (pj_id p) = None" and "\<not> inherited_property (pj_id p)"
  shows "candidatePeople st focus p =
           Inr (filter (\<lambda>x. if focus \<noteq> '''' then pf_id x = focus else True)
                  (filter (\<lambda>x. pf_is_active x \<noteq> Some False) (orgProfiles st)))"
  by (simp add: candidatePeople_def members_or_empty_unloaded [OF assms])

lemma candidatePeople_spec:
  assumes "membersByProject st (pj_id p) \<noteq> None \<or> \<not> inherited_property (pj_id p)"
  shows "candidatePeople st focus p = Inr (candidates_spec st focus (pj_id p))"
proof (cases "membersByProject st (pj_id p)")
  case None
  with assms have "\<not> inherited_property (pj_id p)" by simp
  from candidatePeople_unloaded [OF None this] None show ?thesis
    by (simp add: candidates_spec_def activeOrgProfiles_def alreadyMembers_def)
next
  case (Some ms)
  from candidatePeople_loaded [OF Some] Some show ?thesis
    by (auto simp: candidates_spec_def activeOrgProfiles_def alreadyMembers_def list_ex_iff
        image_iff intro!: filter_cong)
qed

text \<open>
  The lookup that the hypothesis of the next theorem excludes: a project whose id is
  \<open>constructor\<close>, not loaded, with a directory that is not empty.
\<close>

lemma candidatePeople_inherited_key:
  "candidatePeople scn_page '''' (scn_P2\<lparr>pj_id := ''constructor''\<rparr>) = Inl TypeError"
  by (simp add: candidatePeople_def members_or_empty_def inherited_property_def scn_page_def
      scn_A_def)

text \<open>
  C5.  Let \<open>p\<close> be a project that has a membership set loaded or whose id is not the name
  of a property of \<open>Object.prototype\<close> (the ids the store generates are not).  Then the
  render computes a candidate list for \<open>p\<close>, and it is the active directory (the profiles
  whose \<open>is_active\<close> is not \<open>false\<close>), narrowed to the focus profile when a focus is
  supplied, without the profiles of the membership set loaded for \<open>p\<close>.  It keeps the
  directory's order.  With nothing loaded for \<open>p\<close> nothing is subtracted; with a set
  loaded, no profile of that set is a candidate.
\<close>

theorem candidatePeople_derivation:
  assumes "membersByProject st (pj_id p) \<noteq> None \<or> \<not> inherited_property (pj_id p)"
  shows
    "candidatePeople st focus p = Inr (candidates_spec st focus (pj_id p))
     \<and> candidatePeople st focus p
         = Inr (filter (\<lambda>x. pf_is_active x \<noteq> Some False
                          \<and> (focus = '''' \<or> pf_id x = focus)
                          \<and> (\<forall>ms. membersByProject st (pj_id p) = Some ms \<longrightarrow>
                                pf_id x \<notin> set (map pm_profile_id ms)))
                  (orgProfiles st))
     \<and> (membersByProject st (pj_id p) = None \<longrightarrow>
          candidatePeople st focus p
            = Inr (if focus = '''' then activeOrgProfiles st
                   else filter (\<lambda>x. pf_id x = focus) (activeOrgProfiles st)))
     \<and> (\<forall>ms m xs x. membersByProject st (pj_id p) = Some ms \<and> m \<in> set ms
            \<and> candidatePeople st focus p = Inr xs \<and> x \<in> set xs
          \<longrightarrow> pf_id x \<noteq> pm_profile_id m)"
proof -
  have list: "candidatePeople st focus p
         = Inr (filter (\<lambda>x. pf_is_active x \<noteq> Some False
                          \<and> (focus = '''' \<or> pf_id x = focus)
                          \<and> (\<forall>ms. membersByProject st (pj_id p) = Some ms \<longrightarrow>
                                pf_id x \<notin> set (map pm_profile_id ms)))
                  (orgProfiles st))"
  proof (cases "membersByProject st (pj_id p)")
    case None
    with assms have "\<not> inherited_property (pj_id p)" by simp
    from candidatePeople_unloaded [OF None this] None show ?thesis
      by (auto intro!: filter_cong)
  next
    case (Some ms)
    from candidatePeople_loaded [OF Some] Some show ?thesis
      by (auto simp: list_ex_iff image_iff intro!: filter_cong)
  qed
  have unloaded: "membersByProject st (pj_id p) = None \<longrightarrow>
          candidatePeople st focus p
            = Inr (if focus = '''' then activeOrgProfiles st
                   else filter (\<lambda>x. pf_id x = focus) (activeOrgProfiles st))"
  proof
    assume none: "membersByProject st (pj_id p) = None"
    with assms have "\<not> inherited_property (pj_id p)" by simp
    from candidatePeople_unloaded [OF none this]
    show "candidatePeople st focus p
            = Inr (if focus = '''' then activeOrgProfiles st
                   else filter (\<lambda>x. pf_id x = focus) (activeOrgProfiles st))"
      by (simp add: activeOrgProfiles_def)
  qed
  have excluded: "\<forall>ms m xs x. membersByProject st (pj_id p) = Some ms \<and> m \<in> set ms
            \<and> candidatePeople st focus p = Inr xs \<and> x \<in> set xs
          \<longrightarrow> pf_id x \<noteq> pm_profile_id m"
  proof (intro allI impI)
    fix ms m xs x
    assume a: "membersByProject st (pj_id p) = Some ms \<and> m \<in> set ms
            \<and> candidatePeople st focus p = Inr xs \<and> x \<in> set xs"
    then have some: "membersByProject st (pj_id p) = Some ms" by simp
    from a candidatePeople_loaded [OF some, of focus]
    show "pf_id x \<noteq> pm_profile_id m"
      by (auto simp: list_ex_iff)
  qed
  from candidatePeople_spec [OF assms] list unloaded excluded show ?thesis
    by blast
qed

theorem candidatePeople_derivation_witness:
  "membersByProject scn_page (pj_id scn_P2) = None
   \<and> \<not> inherited_property (pj_id scn_P2)
   \<and> membersByProject scn_page (pj_id scn_P1) \<noteq> None
   \<and> candidatePeople scn_page '''' scn_P2 = Inr [scn_A, scn_B, scn_C]
   \<and> candidatePeople scn_page '''' scn_P1 = Inr [scn_A, scn_C]
   \<and> candidatePeople scn_page ''C'' scn_P1 = Inr [scn_C]
   \<and> candidatePeople scn_page ''B'' scn_P1 = Inr []"
proof -
  have unloaded: "membersByProject scn_page (pj_id scn_P2) = None"
    by (simp add: scn_page_def scn_P2_def)
  have plain: "\<not> inherited_property (pj_id scn_P2)"
    by (simp add: inherited_property_def scn_P2_def)
  have loaded: "membersByProject scn_page (pj_id scn_P1) \<noteq> None"
    by (simp add: scn_page_def scn_P1_def)
  have h2: "membersByProject scn_page (pj_id scn_P2) \<noteq> None \<or> \<not> inherited_property (pj_id scn_P2)"
    using plain by simp
  have h1: "membersByProject scn_page (pj_id scn_P1) \<noteq> None \<or> \<not> inherited_property (pj_id scn_P1)"
    using loaded by simp
  have active: "activeOrgProfiles scn_page = [scn_A, scn_B, scn_C]"
    by (simp add: activeOrgProfiles_def scn_page_def scn_A_def scn_B_def scn_C_def)
  have members: "alreadyMembers scn_page (pj_id scn_P1) = {''B''}"
    by (simp add: alreadyMembers_def scn_page_def scn_P1_def)
  have ids: "pf_id scn_A = ''A''" "pf_id scn_B = ''B''" "pf_id scn_C = ''C''"
    by (simp_all add: scn_A_def scn_B_def scn_C_def)
  have P2: "candidatePeople scn_page '''' scn_P2 = Inr [scn_A, scn_B, scn_C]"
    using candidatePeople_derivation [OF h2, of "''''", THEN conjunct2, THEN conjunct2,
        THEN conjunct1] unloaded active
    by simp
  have P1: "candidatePeople scn_page '''' scn_P1 = Inr [scn_A, scn_C]"
    using candidatePeople_derivation [OF h1, of "''''", THEN conjunct1]
    by (simp add: candidates_spec_def active members ids)
  have P1C: "candidatePeople scn_page ''C'' scn_P1 = Inr [scn_C]"
    using candidatePeople_derivation [OF h1, of "''C''", THEN conjunct1]
    by (simp add: candidates_spec_def active members ids)
  have P1B: "candidatePeople scn_page ''B'' scn_P1 = Inr []"
    using candidatePeople_derivation [OF h1, of "''B''", THEN conjunct1]
    by (simp add: candidates_spec_def active members ids)
  from unloaded plain loaded P2 P1 P1C P1B show ?thesis
    by blast
qed

subsection \<open>The visibility effect\<close>

lemma effect_begin_resolved:
  assumes "org_of profile = Some org" and "org \<noteq> ''''" and "userId = Some uid" and "uid \<noteq> ''''"
  shows "effect_begin profile userId st =
           (st\<lparr>msg := ''''\<rparr>,
            Some (\<lparr>cancelled = False, er_org_id = org, er_userId = uid,
                   er_privileged = isAdminOrManager profile\<rparr>,
                  SelectOrgProfiles org))"
  using assms by (simp add: effect_begin_def)

lemma effect_profiles_resume_request:
  "snd (effect_profiles_resume run r st) =
     (if er_privileged run then SelectOrgProjects (er_org_id run)
      else SelectViewerMemberships (er_userId run))"
  by (simp add: effect_profiles_resume_def Let_def)

lemma effect_profiles_resume_projects:
  "projects (fst (effect_profiles_resume run r st)) = projects st"
  by (simp add: effect_profiles_resume_def Let_def split: option.splits)

lemma effect_projects_resume_live:
  "\<not> cancelled run \<Longrightarrow> projects (effect_projects_resume run r st) = or_empty (data r)"
  by (simp add: effect_projects_resume_def split: option.splits)

lemma effect_memberships_resume_live:
  "\<not> cancelled run \<Longrightarrow>
     projects (effect_memberships_resume run r st) =
       filter (\<lambda>p. pj_is_active p \<noteq> Some False)
         (filter_Boolean (map jr_projects (or_empty (data r))))"
  by (simp add: effect_memberships_resume_def Let_def split: option.splits)

lemma resolve_privileged:
  assumes "org_of profile = Some org" and "org \<noteq> ''''" and "userId = Some uid" and "uid \<noteq> ''''"
    and "isAdminOrManager profile"
  shows "projects (resolve le db profile userId profs None st) = select_org_projects le db org"
  using assms
  by (simp add: resolve_def effect_begin_resolved effect_profiles_resume_def Let_def
      effect_projects_resume_def respond_def or_empty_def split: option.splits)

lemma resolve_unprivileged:
  assumes "org_of profile = Some org" and "org \<noteq> ''''" and "userId = Some uid" and "uid \<noteq> ''''"
    and "\<not> isAdminOrManager profile"
  shows "projects (resolve le db profile userId profs None st) =
           filter (\<lambda>p. pj_is_active p \<noteq> Some False)
             (filter_Boolean (map jr_projects (select_viewer_memberships db uid)))"
  using assms
  by (simp add: resolve_def effect_begin_resolved effect_profiles_resume_def Let_def
      effect_memberships_resume_def respond_def or_empty_def split: option.splits)

lemma filter_Boolean_map: "filter_Boolean (map f xs) = List.map_filter f xs"
  by (induction xs) (simp_all add: filter_Boolean_def map_filter_simps split: option.splits)

lemma joined_projects:
  "filter_Boolean (map jr_projects (select_viewer_memberships db uid)) =
     List.map_filter (\<lambda>r. find (\<lambda>p. pj_id p = mr_project_id r) (projects_tbl db))
       (filter (\<lambda>r. mr_profile_id r = uid \<and> mr_is_active r = Some True) (members_tbl db))"
  by (simp add: select_viewer_memberships_def filter_Boolean_map comp_def)

lemma not_explicitly_false: "(a \<noteq> Some False) = (a = None \<or> a = Some True)"
  by (cases a) auto

lemma in_set_map_filter: "(y \<in> set (List.map_filter f xs)) = (\<exists>x \<in> set xs. f x = Some y)"
  by (induction xs) (auto split: option.splits)

lemma scn_orgs:
  "org_of (scn_viewer r) = Some ''org''"
  "isAdminOrManager (scn_viewer admin)"
  "isAdminOrManager (scn_viewer manager)"
  "\<not> isAdminOrManager (scn_viewer contractor)"
  by (simp_all add: org_of_def scn_viewer_def isAdminOrManager_def)

lemma scn_projects_sorted:
  "select_org_projects bytes_le scn_store ''org'' = [scn_P3, scn_P1, scn_P2]"
  by (simp add: select_org_projects_def sort_by_def scn_store_def scn_P1_def scn_P2_def
      scn_P3_def)

lemma scn_joined_B:
  "filter_Boolean (map jr_projects (select_viewer_memberships scn_store ''B'')) = [scn_P1, scn_P3]"
  by (simp add: select_viewer_memberships_def filter_Boolean_def map_filter_simps scn_store_def
      scn_P1_def scn_P2_def scn_P3_def)

lemma scn_joined_C:
  "filter_Boolean (map jr_projects (select_viewer_memberships scn_store ''C'')) = []"
  by (simp add: select_viewer_memberships_def filter_Boolean_def map_filter_simps scn_store_def)

text \<open>
  C1.  For a viewer whose role is contractor, with organisation and user id resolved, a
  run of the resolver that is not cancelled issues the membership select for the viewer
  and sets the project list to the projects joined to the returned rows, without those
  whose \<open>is_active\<close> is \<open>false\<close>.  When the store answers, these are the projects joined
  from the viewer's membership rows with \<open>is_active = true\<close>, in the order of those rows;
  a project is listed exactly if such a row joins to it and its own \<open>is_active\<close> is null
  or true.
\<close>

theorem contractor_visible_projects:
  assumes "profile = Some v" and "vw_role v = contractor"
    and "vw_org_id v = Some org" and "org \<noteq> ''''" and "userId = Some uid" and "uid \<noteq> ''''"
  shows
    "(\<exists>run. effect_begin profile userId st = (st\<lparr>msg := ''''\<rparr>, Some (run, SelectOrgProfiles org))
        \<and> \<not> cancelled run
        \<and> snd (effect_profiles_resume run profs (st\<lparr>msg := ''''\<rparr>)) = SelectViewerMemberships uid
        \<and> (\<forall>r st'. projects (effect_memberships_resume run r st')
              = filter (\<lambda>p. pj_is_active p \<noteq> Some False)
                  (filter_Boolean (map jr_projects (or_empty (data r))))))
     \<and> projects (resolve le db profile userId profs None st)
         = filter (\<lambda>p. pj_is_active p \<noteq> Some False)
             (List.map_filter (\<lambda>r. find (\<lambda>p. pj_id p = mr_project_id r) (projects_tbl db))
                (filter (\<lambda>r. mr_profile_id r = uid \<and> mr_is_active r = Some True)
                   (members_tbl db)))
     \<and> (\<forall>p. (p \<in> set (projects (resolve le db profile userId profs None st)))
            = ((\<exists>r \<in> set (members_tbl db).
                   mr_profile_id r = uid \<and> mr_is_active r = Some True
                   \<and> find (\<lambda>q. pj_id q = mr_project_id r) (projects_tbl db) = Some p)
               \<and> (pj_is_active p = None \<or> pj_is_active p = Some True)))"
proof -
  have org: "org_of profile = Some org"
    using assms by (simp add: org_of_def)
  have unpriv: "\<not> isAdminOrManager profile"
    using assms by (simp add: isAdminOrManager_def)
  let ?run = "\<lparr>cancelled = False, er_org_id = org, er_userId = uid, er_privileged = False\<rparr>"
  have start: "effect_begin profile userId st = (st\<lparr>msg := ''''\<rparr>, Some (?run, SelectOrgProfiles org))"
    using effect_begin_resolved [OF org assms(4,5,6)] unpriv by simp
  have rq: "snd (effect_profiles_resume ?run profs (st\<lparr>msg := ''''\<rparr>)) = SelectViewerMemberships uid"
    by (simp add: effect_profiles_resume_request)
  have live: "\<forall>r st'. projects (effect_memberships_resume ?run r st')
              = filter (\<lambda>p. pj_is_active p \<noteq> Some False)
                  (filter_Boolean (map jr_projects (or_empty (data r))))"
    by (simp add: effect_memberships_resume_live)
  have first: "\<exists>run. effect_begin profile userId st
                 = (st\<lparr>msg := ''''\<rparr>, Some (run, SelectOrgProfiles org))
        \<and> \<not> cancelled run
        \<and> snd (effect_profiles_resume run profs (st\<lparr>msg := ''''\<rparr>)) = SelectViewerMemberships uid
        \<and> (\<forall>r st'. projects (effect_memberships_resume run r st')
              = filter (\<lambda>p. pj_is_active p \<noteq> Some False)
                  (filter_Boolean (map jr_projects (or_empty (data r)))))"
    using start rq live by (intro exI [of _ ?run]) simp
  have list: "projects (resolve le db profile userId profs None st)
         = filter (\<lambda>p. pj_is_active p \<noteq> Some False)
             (List.map_filter (\<lambda>r. find (\<lambda>p. pj_id p = mr_project_id r) (projects_tbl db))
                (filter (\<lambda>r. mr_profile_id r = uid \<and> mr_is_active r = Some True)
                   (members_tbl db)))"
    using resolve_unprivileged [OF org assms(4,5,6) unpriv] by (simp add: joined_projects)
  have member: "\<forall>p. (p \<in> set (projects (resolve le db profile userId profs None st)))
            = ((\<exists>r \<in> set (members_tbl db).
                   mr_profile_id r = uid \<and> mr_is_active r = Some True
                   \<and> find (\<lambda>q. pj_id q = mr_project_id r) (projects_tbl db) = Some p)
               \<and> (pj_is_active p = None \<or> pj_is_active p = Some True))"
    unfolding list by (auto simp: in_set_map_filter not_explicitly_false)
  from first list member show ?thesis by blast
qed

theorem contractor_visible_projects_witness:
  "scn_viewer contractor = Some \<lparr>vw_org_id = Some ''org'', vw_role = contractor\<rparr>
   \<and> projects (resolve bytes_le scn_store (scn_viewer contractor) (Some ''B'')
                 (Success [scn_A, scn_B, scn_C]) None initial_page) = [scn_P1]
   \<and> projects (resolve bytes_le scn_store (scn_viewer contractor) (Some ''C'')
                 (Success [scn_A, scn_B, scn_C]) None initial_page) = []"
proof -
  have v: "scn_viewer contractor = Some \<lparr>vw_org_id = Some ''org'', vw_role = contractor\<rparr>"
    by (simp add: scn_viewer_def)
  have B: "projects (resolve bytes_le scn_store (scn_viewer contractor) (Some ''B'')
                 (Success [scn_A, scn_B, scn_C]) None initial_page)
           = filter (\<lambda>p. pj_is_active p \<noteq> Some False) [scn_P1, scn_P3]"
    using contractor_visible_projects [OF v, of "''org''" "Some ''B''" "''B''" initial_page
        "Success [scn_A, scn_B, scn_C]" bytes_le scn_store, THEN conjunct2, THEN conjunct1]
      scn_joined_B
    by (simp add: joined_projects)
  have C: "projects (resolve bytes_le scn_store (scn_viewer contractor) (Some ''C'')
                 (Success [scn_A, scn_B, scn_C]) None initial_page)
           = filter (\<lambda>p. pj_is_active p \<noteq> Some False) []"
    using contractor_visible_projects [OF v, of "''org''" "Some ''C''" "''C''" initial_page
        "Success [scn_A, scn_B, scn_C]" bytes_le scn_store, THEN conjunct2, THEN conjunct1]
      scn_joined_C
    by (simp add: joined_projects)
  from v B C show ?thesis
    by (simp add: scn_P1_def scn_P3_def)
qed

text \<open>
  C2.  For a viewer whose role is admin or manager, with organisation and user id
  resolved, a run of the resolver that is not cancelled issues the select of the
  organisation's projects ordered by name and sets the project list to the returned
  rows as they are.  When the store answers, the list holds exactly the rows of
  \<open>projects\<close> with the viewer's \<open>org_id\<close>, each as often as the table does, whatever their
  \<open>is_active\<close> and whatever the memberships, in ascending order of name under the store's
  collation.
\<close>

theorem privileged_visible_projects:
  assumes "profile = Some v" and "vw_role v = admin \<or> vw_role v = manager"
    and "vw_org_id v = Some org" and "org \<noteq> ''''" and "userId = Some uid" and "uid \<noteq> ''''"
  shows
    "(\<exists>run. effect_begin profile userId st = (st\<lparr>msg := ''''\<rparr>, Some (run, SelectOrgProfiles org))
        \<and> \<not> cancelled run
        \<and> snd (effect_profiles_resume run profs (st\<lparr>msg := ''''\<rparr>)) = SelectOrgProjects org
        \<and> (\<forall>r st'. projects (effect_projects_resume run r st') = or_empty (data r)))
     \<and> projects (resolve le db profile userId profs None st)
         = sort_by (\<lambda>a b. le (pj_name a) (pj_name b))
             (filter (\<lambda>p. pj_org_id p = org) (projects_tbl db))
     \<and> mset (projects (resolve le db profile userId profs None st))
         = filter_mset (\<lambda>p. pj_org_id p = org) (mset (projects_tbl db))
     \<and> (total_preorder le \<longrightarrow>
          sorted_wrt (\<lambda>a b. le (pj_name a) (pj_name b))
            (projects (resolve le db profile userId profs None st)))
     \<and> projects (resolve le db profile userId profs None st)
         = projects (resolve le (db\<lparr>members_tbl := ms\<rparr>) profile userId profs None st)"
proof -
  have org: "org_of profile = Some org"
    using assms by (simp add: org_of_def)
  have priv: "isAdminOrManager profile"
    using assms by (simp add: isAdminOrManager_def)
  let ?run = "\<lparr>cancelled = False, er_org_id = org, er_userId = uid, er_privileged = True\<rparr>"
  have start: "effect_begin profile userId st = (st\<lparr>msg := ''''\<rparr>, Some (?run, SelectOrgProfiles org))"
    using effect_begin_resolved [OF org assms(4,5,6)] priv by simp
  have rq: "snd (effect_profiles_resume ?run profs (st\<lparr>msg := ''''\<rparr>)) = SelectOrgProjects org"
    by (simp add: effect_profiles_resume_request)
  have live: "\<forall>r st'. projects (effect_projects_resume ?run r st') = or_empty (data r)"
    by (simp add: effect_projects_resume_live)
  have first: "\<exists>run. effect_begin profile userId st
                 = (st\<lparr>msg := ''''\<rparr>, Some (run, SelectOrgProfiles org))
        \<and> \<not> cancelled run
        \<and> snd (effect_profiles_resume run profs (st\<lparr>msg := ''''\<rparr>)) = SelectOrgProjects org
        \<and> (\<forall>r st'. projects (effect_projects_resume run r st') = or_empty (data r))"
    using start rq live by (intro exI [of _ ?run]) simp
  have list: "projects (resolve le db' profile userId profs None st)
         = sort_by (\<lambda>a b. le (pj_name a) (pj_name b))
             (filter (\<lambda>p. pj_org_id p = org) (projects_tbl db'))" for db'
    using resolve_privileged [OF org assms(4,5,6) priv] by (simp add: select_org_projects_def)
  have perm: "mset (projects (resolve le db profile userId profs None st))
         = filter_mset (\<lambda>p. pj_org_id p = org) (mset (projects_tbl db))"
    by (simp add: list mset_sort_by)
  have sorted: "total_preorder le \<longrightarrow>
          sorted_wrt (\<lambda>a b. le (pj_name a) (pj_name b))
            (projects (resolve le db profile userId profs None st))"
    by (simp add: list sorted_sort_by total_preorder_key)
  have indep: "projects (resolve le db profile userId profs None st)
         = projects (resolve le (db\<lparr>members_tbl := ms\<rparr>) profile userId profs None st)"
    by (simp add: list)
  from first list [of db] perm sorted indep show ?thesis by blast
qed

theorem privileged_visible_projects_witness:
  "scn_viewer admin = Some \<lparr>vw_org_id = Some ''org'', vw_role = admin\<rparr>
   \<and> total_preorder bytes_le
   \<and> projects (resolve bytes_le scn_store (scn_viewer admin) (Some ''A'')
                 (Success [scn_A, scn_B, scn_C]) None initial_page) = [scn_P3, scn_P1, scn_P2]
   \<and> sorted_wrt (\<lambda>a b. bytes_le (pj_name a) (pj_name b))
       (projects (resolve bytes_le scn_store (scn_viewer admin) (Some ''A'')
                    (Success [scn_A, scn_B, scn_C]) None initial_page))"
proof -
  have v: "scn_viewer admin = Some \<lparr>vw_org_id = Some ''org'', vw_role = admin\<rparr>"
    by (simp add: scn_viewer_def)
  have role: "vw_role \<lparr>vw_org_id = Some ''org'', vw_role = admin\<rparr> = admin
      \<or> vw_role \<lparr>vw_org_id = Some ''org'', vw_role = admin\<rparr> = manager"
    by simp
  note inst = privileged_visible_projects [OF v role, of "''org''" "Some ''A''" "''A''"
      initial_page "Success [scn_A, scn_B, scn_C]" bytes_le scn_store "[]"]
  have list: "projects (resolve bytes_le scn_store (scn_viewer admin) (Some ''A'')
                 (Success [scn_A, scn_B, scn_C]) None initial_page) = [scn_P3, scn_P1, scn_P2]"
    using inst [THEN conjunct2, THEN conjunct1] scn_projects_sorted
    by (simp add: select_org_projects_def)
  have sorted: "sorted_wrt (\<lambda>a b. bytes_le (pj_name a) (pj_name b))
       (projects (resolve bytes_le scn_store (scn_viewer admin) (Some ''A'')
                    (Success [scn_A, scn_B, scn_C]) None initial_page))"
    using inst [THEN conjunct2, THEN conjunct2, THEN conjunct2, THEN conjunct1]
      total_preorder_bytes_le
    by simp
  from v list sorted total_preorder_bytes_le show ?thesis
    by blast
qed

subsection \<open>Cancellation\<close>

text \<open>
  C4.  Once the cleanup of a run has been called (the identity that started the run has
  changed), the run's \<open>cancelled\<close> variable is set, and no response that arrives
  afterwards is written back: the directory response, the project rows and the joined
  rows each leave the whole page state, so the project list, the directory cache and the
  message buffer, as it is.  The state a later run has computed for the current identity
  therefore survives the late responses of the superseded run.  (The only write of a
  run that is not guarded is the clearing of the message buffer when the run starts,
  before any response can arrive.)
\<close>

theorem cancelled_run_writes_nothing:
  "cancelled (cleanup run)
   \<and> fst (effect_profiles_resume (cleanup run) profs st) = st
   \<and> effect_projects_resume (cleanup run) projs st = st
   \<and> effect_memberships_resume (cleanup run) joined st = st
   \<and> effect_projects_resume (cleanup run) projs
       (fst (effect_profiles_resume (cleanup run) profs st)) = st
   \<and> effect_memberships_resume (cleanup run) joined
       (fst (effect_profiles_resume (cleanup run) profs st)) = st
   \<and> cleanup (cleanup run) = cleanup run"
  by (simp add: cleanup_def effect_profiles_resume_def effect_projects_resume_def
      effect_memberships_resume_def)

text \<open>
  The cancellation scenario: the run for viewer B starts, the identity changes to A, the
  run for A completes, and then the responses for B arrive.
\<close>

theorem cancelled_run_writes_nothing_witness:
  "effect_begin (scn_viewer contractor) (Some ''B'') initial_page
     = (initial_page, Some (scn_run_B, SelectOrgProfiles ''org''))
   \<and> projects (resolve bytes_le scn_store (scn_viewer admin) (Some ''A'')
                 (Success [scn_A, scn_B, scn_C]) None initial_page) = [scn_P3, scn_P1, scn_P2]
   \<and> effect_memberships_resume (cleanup scn_run_B)
       (Success (select_viewer_memberships scn_store ''B''))
       (fst (effect_profiles_resume (cleanup scn_run_B) (Success [scn_B])
          (resolve bytes_le scn_store (scn_viewer admin) (Some ''A'')
             (Success [scn_A, scn_B, scn_C]) None initial_page)))
     = resolve bytes_le scn_store (scn_viewer admin) (Some ''A'')
         (Success [scn_A, scn_B, scn_C]) None initial_page"
proof -
  have start: "effect_begin (scn_viewer contractor) (Some ''B'') initial_page
     = (initial_page, Some (scn_run_B, SelectOrgProfiles ''org''))"
    by (simp add: effect_begin_def scn_orgs scn_run_B_def initial_page_def)
  have A: "projects (resolve bytes_le scn_store (scn_viewer admin) (Some ''A'')
                 (Success [scn_A, scn_B, scn_C]) None initial_page) = [scn_P3, scn_P1, scn_P2]"
    using resolve_privileged [of "scn_viewer admin" "''org''" "Some ''A''" "''A''" bytes_le
        scn_store "Success [scn_A, scn_B, scn_C]" initial_page]
    by (simp add: scn_orgs scn_projects_sorted)
  show ?thesis
    using cancelled_run_writes_nothing [of scn_run_B "Success [scn_B]"
        "resolve bytes_le scn_store (scn_viewer admin) (Some ''A'')
           (Success [scn_A, scn_B, scn_C]) None initial_page"
        "Success []" "Success (select_viewer_memberships scn_store ''B'')"]
      start A
    by simp
qed

subsection \<open>Failed store queries\<close>

text \<open>
  C3 as stated fails for the Visibility Resolver: a failed fetch of a run that is not
  cancelled is written back as the empty list.  Below, a page with three profiles in
  its directory and two projects loses the directory to a failed profiles fetch and the
  project list to a failed projects fetch.
\<close>

theorem failed_fetch_resets_cache_counterexample:
  "\<not> cancelled scn_run_A
   \<and> orgProfiles scn_page = [scn_A, scn_B, scn_C]
   \<and> orgProfiles (fst (effect_profiles_resume scn_run_A (Failure ''timeout'') scn_page)) = []
   \<and> projects scn_page = [scn_P1, scn_P2]
   \<and> projects (effect_projects_resume scn_run_A (Failure ''timeout'') scn_page) = []
   \<and> caches (fst (effect_profiles_resume scn_run_A (Failure ''timeout'') scn_page))
       \<noteq> caches scn_page
   \<and> caches (effect_projects_resume scn_run_A (Failure ''timeout'') scn_page) \<noteq> caches scn_page"
  by (simp add: effect_profiles_resume_def effect_projects_resume_def scn_run_A_def
      scn_page_def or_empty_def caches_def)

text \<open>
  C3, amended.  A failed store query leaves the project list, the directory cache and
  the membership map as they were in load/refresh members, project creation, add member
  and remove member (a failed update also leaves the store as it was, and a failed
  refresh after a successful update leaves the caches as they were).  In the Visibility
  Resolver a failed fetch of a run that is not cancelled sets the cache it was to fill to
  the empty list (the directory for the profiles fetch, the project list for either
  projects fetch) and leaves the other two caches as they were; the message is written
  to, or appended to, the message buffer.
\<close>

theorem failed_query_caches:
  "\<not> cancelled run \<Longrightarrow>
     caches (loadMembers_resume projectId (Failure m) st) = caches st
     \<and> caches (createProject_resume lc (Failure m) st) = caches st
     \<and> addMember_resume projectId (Failure m) st = (st\<lparr>msg := m\<rparr>, None)
     \<and> removeMember_resume projectId (Failure m) st = (st\<lparr>msg := m\<rparr>, None)
     \<and> removeMember (Some m) fault2 projectId memberId (db, st) = (db, st\<lparr>msg := m\<rparr>)
     \<and> snd (removeMember None (Some m) projectId memberId (db, st)) = st\<lparr>msg := m\<rparr>
     \<and> fst (effect_profiles_resume run (Failure m) st) = st\<lparr>msg := m, orgProfiles := []\<rparr>
     \<and> effect_projects_resume run (Failure m) st
         = st\<lparr>msg := append_msg (msg st) m, projects := []\<rparr>
     \<and> effect_memberships_resume run (Failure m) st
         = st\<lparr>msg := append_msg (msg st) m, projects := []\<rparr>"
  by (simp add: caches_def loadMembers_resume_def createProject_resume_def addMember_resume_def
      removeMember_resume_def removeMember_def removeMember_begin_def loadMembers_begin_def
      respond_def effect_profiles_resume_def effect_projects_resume_def
      effect_memberships_resume_def or_empty_def filter_Boolean_def)

theorem failed_query_caches_witness:
  "\<not> cancelled scn_run_A
   \<and> caches (loadMembers_resume ''p1'' (Failure ''timeout'') scn_page) = caches scn_page
   \<and> caches (createProject_resume bytes_compare (Failure ''timeout'') scn_page) = caches scn_page
   \<and> removeMember (Some ''timeout'') None ''p1'' ''m1'' (scn_store, scn_page)
       = (scn_store, scn_page\<lparr>msg := ''timeout''\<rparr>)
   \<and> fst (effect_profiles_resume scn_run_A (Failure ''timeout'') scn_page)
       = scn_page\<lparr>msg := ''timeout'', orgProfiles := []\<rparr>
   \<and> msg (effect_projects_resume scn_run_A (Failure ''denied'')
            (fst (effect_profiles_resume scn_run_A (Failure ''timeout'') scn_page)))
       = ''timeout'' @ [CHR 0x0A] @ ''denied''"
proof -
  have live: "\<not> cancelled scn_run_A"
    by (simp add: scn_run_A_def)
  show ?thesis
    using failed_query_caches [OF live, of "''p1''" "''timeout''" scn_page bytes_compare None
        "''m1''" scn_store]
      failed_query_caches [OF live, of "''p1''" "''denied''"
        "scn_page\<lparr>msg := ''timeout'', orgProfiles := []\<rparr>" bytes_compare None "''m1''" scn_store]
      live
    by (simp add: append_msg_def)
qed

subsection \<open>Remove member\<close>

lemma removeMember_ok:
  "removeMember None None projectId memberId (db, st) =
     (update_member_active db memberId False,
      st\<lparr>msg := '''',
         membersByProject := (membersByProject st)
           (projectId \<mapsto> select_project_members (update_member_active db memberId False) projectId)\<rparr>)"
  by (simp add: removeMember_def removeMember_begin_def removeMember_resume_def
      loadMembers_begin_def loadMembers_resume_def respond_def or_empty_def Let_def)

lemma patched_rows_inactive:
  assumes "r \<in> set (map (\<lambda>r. if mr_id r = memberId then r\<lparr>mr_is_active := Some b\<rparr> else r) rows)"
    and "mr_id r = memberId"
  shows "mr_is_active r = Some b"
proof -
  from assms(1) obtain r0
    where r: "r = (if mr_id r0 = memberId then r0\<lparr>mr_is_active := Some b\<rparr> else r0)"
    unfolding set_map by (rule imageE)
  show ?thesis
  proof (cases "mr_id r0 = memberId")
    case True
    with r show ?thesis by simp
  next
    case False
    with r assms(2) show ?thesis by simp
  qed
qed

lemma removed_not_selected:
  assumes "m \<in> set (select_project_members (update_member_active db memberId False) projectId)"
  shows "pm_id m \<noteq> memberId"
proof
  assume id: "pm_id m = memberId"
  let ?rows = "members_tbl (update_member_active db memberId False)"
  from assms obtain r where m: "m = member_cols r"
    and r: "r \<in> set (filter (\<lambda>r. mr_project_id r = projectId \<and> mr_is_active r = Some True) ?rows)"
    unfolding select_project_members_def set_map by (rule imageE)
  from r have in_tbl: "r \<in> set ?rows" and active: "mr_is_active r = Some True"
    by simp_all
  from m id have "mr_id r = memberId"
    by (simp add: member_cols_def)
  with in_tbl have "mr_is_active r = Some False"
    unfolding update_member_active_def by (intro patched_rows_inactive) simp_all
  with active show False by simp
qed

text \<open>
  C6.  Remove member issues one request, the update of \<open>is_active\<close> to \<open>false\<close> on the
  membership row with the given row id; when the update succeeds it starts the
  load/refresh of the project's members.  With both store calls answered, the store
  holds the same rows as before (none is deleted, none added, the projects are
  untouched), the rows with the given id now with \<open>is_active = false\<close> and all other rows
  unchanged, and the membership set loaded for the project is the project's active rows
  in the updated store, none of which has the given id.
\<close>

theorem removeMember_soft_delete:
  "removeMember_begin memberId st = (st\<lparr>msg := ''''\<rparr>, UpdateMemberActive memberId False)
   \<and> removeMember_resume projectId (Success ()) st
       = (st\<lparr>msg := ''''\<rparr>, Some (SelectProjectMembers projectId))
   \<and> (\<forall>db' st'. removeMember None None projectId memberId (db, st) = (db', st') \<longrightarrow>
        members_tbl db'
          = map (\<lambda>r. if mr_id r = memberId then r\<lparr>mr_is_active := Some False\<rparr> else r)
              (members_tbl db)
        \<and> projects_tbl db' = projects_tbl db
        \<and> map mr_id (members_tbl db') = map mr_id (members_tbl db)
        \<and> (\<forall>r \<in> set (members_tbl db'). mr_id r = memberId \<longrightarrow> mr_is_active r = Some False)
        \<and> ((\<exists>r \<in> set (members_tbl db). mr_id r = memberId) \<longrightarrow>
             (\<exists>r \<in> set (members_tbl db'). mr_id r = memberId \<and> mr_is_active r = Some False))
        \<and> membersByProject st' projectId = Some (select_project_members db' projectId)
        \<and> (\<forall>m \<in> set (select_project_members db' projectId). pm_id m \<noteq> memberId))"
proof -
  let ?db = "update_member_active db memberId False"
  have ids: "map mr_id (members_tbl ?db) = map mr_id (members_tbl db)"
    by (simp add: update_member_active_def comp_def)
  have inactive: "\<forall>r \<in> set (members_tbl ?db). mr_id r = memberId \<longrightarrow> mr_is_active r = Some False"
    unfolding update_member_active_def
    by (intro ballI impI) (rule patched_rows_inactive, simp_all)
  have kept: "(\<exists>r \<in> set (members_tbl db). mr_id r = memberId) \<longrightarrow>
             (\<exists>r \<in> set (members_tbl ?db). mr_id r = memberId \<and> mr_is_active r = Some False)"
  proof
    assume "\<exists>r \<in> set (members_tbl db). mr_id r = memberId"
    then obtain r where r: "r \<in> set (members_tbl db)" "mr_id r = memberId"
      by blast
    have "r\<lparr>mr_is_active := Some False\<rparr> \<in> set (members_tbl ?db)"
      unfolding update_member_active_def using r
      by (simp add: image_iff) (rule bexI [of _ r], simp_all)
    then show "\<exists>r \<in> set (members_tbl ?db). mr_id r = memberId \<and> mr_is_active r = Some False"
      using r(2) by (intro bexI [of _ "r\<lparr>mr_is_active := Some False\<rparr>"]) simp_all
  qed
  have absent: "\<forall>m \<in> set (select_project_members ?db projectId). pm_id m \<noteq> memberId"
    using removed_not_selected by blast
  have tbls: "members_tbl ?db
          = map (\<lambda>r. if mr_id r = memberId then r\<lparr>mr_is_active := Some False\<rparr> else r)
              (members_tbl db)"
    "projects_tbl ?db = projects_tbl db"
    by (simp_all add: update_member_active_def)
  have segs: "removeMember_begin memberId st = (st\<lparr>msg := ''''\<rparr>, UpdateMemberActive memberId False)"
    "removeMember_resume projectId (Success ()) st
       = (st\<lparr>msg := ''''\<rparr>, Some (SelectProjectMembers projectId))"
    by (simp_all add: removeMember_begin_def removeMember_resume_def loadMembers_begin_def)
  have run: "\<forall>db' st'. removeMember None None projectId memberId (db, st) = (db', st') \<longrightarrow>
        members_tbl db'
          = map (\<lambda>r. if mr_id r = memberId then r\<lparr>mr_is_active := Some False\<rparr> else r)
              (members_tbl db)
        \<and> projects_tbl db' = projects_tbl db
        \<and> map mr_id (members_tbl db') = map mr_id (members_tbl db)
        \<and> (\<forall>r \<in> set (members_tbl db'). mr_id r = memberId \<longrightarrow> mr_is_active r = Some False)
        \<and> ((\<exists>r \<in> set (members_tbl db). mr_id r = memberId) \<longrightarrow>
             (\<exists>r \<in> set (members_tbl db'). mr_id r = memberId \<and> mr_is_active r = Some False))
        \<and> membersByProject st' projectId = Some (select_project_members db' projectId)
        \<and> (\<forall>m \<in> set (select_project_members db' projectId). pm_id m \<noteq> memberId)"
  proof (intro allI impI)
    fix db' st'
    assume "removeMember None None projectId memberId (db, st) = (db', st')"
    then have db': "db' = ?db"
      and st': "membersByProject st' projectId = Some (select_project_members ?db projectId)"
      by (auto simp: removeMember_ok)
    show "members_tbl db'
          = map (\<lambda>r. if mr_id r = memberId then r\<lparr>mr_is_active := Some False\<rparr> else r)
              (members_tbl db)
        \<and> projects_tbl db' = projects_tbl db
        \<and> map mr_id (members_tbl db') = map mr_id (members_tbl db)
        \<and> (\<forall>r \<in> set (members_tbl db'). mr_id r = memberId \<longrightarrow> mr_is_active r = Some False)
        \<and> ((\<exists>r \<in> set (members_tbl db). mr_id r = memberId) \<longrightarrow>
             (\<exists>r \<in> set (members_tbl db'). mr_id r = memberId \<and> mr_is_active r = Some False))
        \<and> membersByProject st' projectId = Some (select_project_members db' projectId)
        \<and> (\<forall>m \<in> set (select_project_members db' projectId). pm_id m \<noteq> memberId)"
      unfolding db'
      by (intro conjI) (rule tbls ids inactive kept absent st')+
  qed
  from segs run show ?thesis
    by (intro conjI)
qed

theorem removeMember_soft_delete_witness:
  "(\<exists>r \<in> set (members_tbl scn_store). mr_id r = ''m1'')
   \<and> members_tbl (fst (removeMember None None ''p1'' ''m1'' (scn_store, scn_page)))
       = [\<lparr>mr_id = ''m1'', mr_org_id = Some ''org'', mr_project_id = ''p1'',
           mr_profile_id = ''B'', mr_is_active = Some False\<rparr>,
          \<lparr>mr_id = ''m2'', mr_org_id = Some ''org'', mr_project_id = ''p2'',
           mr_profile_id = ''C'', mr_is_active = Some False\<rparr>,
          \<lparr>mr_id = ''m3'', mr_org_id = Some ''org'', mr_project_id = ''p3'',
           mr_profile_id = ''B'', mr_is_active = Some True\<rparr>]
   \<and> membersByProject scn_page ''p1''
       = Some [\<lparr>pm_id = ''m1'', pm_project_id = ''p1'', pm_profile_id = ''B'',
                pm_is_active = Some True\<rparr>]
   \<and> membersByProject (snd (removeMember None None ''p1'' ''m1'' (scn_store, scn_page))) ''p1''
       = Some []"
proof -
  obtain db' st' where run: "removeMember None None ''p1'' ''m1'' (scn_store, scn_page) = (db', st')"
    by (cases "removeMember None None ''p1'' ''m1'' (scn_store, scn_page)")
  have before: "\<exists>r \<in> set (members_tbl scn_store). mr_id r = ''m1''"
    by (simp add: scn_store_def)
  have cached: "membersByProject scn_page ''p1''
       = Some [\<lparr>pm_id = ''m1'', pm_project_id = ''p1'', pm_profile_id = ''B'',
                pm_is_active = Some True\<rparr>]"
    by (simp add: scn_page_def)
  note inst = removeMember_soft_delete [of "''m1''" scn_page "''p1''" scn_store,
      THEN conjunct2, THEN conjunct2, rule_format, OF run]
  have tbl: "members_tbl db'
       = [\<lparr>mr_id = ''m1'', mr_org_id = Some ''org'', mr_project_id = ''p1'',
           mr_profile_id = ''B'', mr_is_active = Some False\<rparr>,
          \<lparr>mr_id = ''m2'', mr_org_id = Some ''org'', mr_project_id = ''p2'',
           mr_profile_id = ''C'', mr_is_active = Some False\<rparr>,
          \<lparr>mr_id = ''m3'', mr_org_id = Some ''org'', mr_project_id = ''p3'',
           mr_profile_id = ''B'', mr_is_active = Some True\<rparr>]"
    using inst [THEN conjunct1] by (simp add: scn_store_def)
  have loaded: "membersByProject st' ''p1'' = Some (select_project_members db' ''p1'')"
    using inst by blast
  have "select_project_members db' ''p1'' = []"
    by (simp add: select_project_members_def tbl)
  with loaded tbl before cached run show ?thesis
    by simp
qed

end
